theory Spec2Isabelle
  imports Complex_Main
begin

section \<open>The skybox of PeaksAndValleys (GLSkybox.js)\<close>

text \<open>
  A shallow embedding of \<^verbatim>\<open>PeaksAndValleys/js/GLSkybox.js\<close>: the constructor
  \<^verbatim>\<open>GLSkybox\<close>, \<^verbatim>\<open>initShader\<close>, \<^verbatim>\<open>initTexture\<close>, the
  \<^verbatim>\<open>image.onload\<close> callback and \<^verbatim>\<open>render\<close>.

  The file talks to three collaborators that are not part of it: the WebGL context
  (\<^verbatim>\<open>gl\<close>), the matrix library (\<^verbatim>\<open>mat4\<close>, \<^verbatim>\<open>vec3\<close>) and the
  asset loader (\<^verbatim>\<open>assets\<close>). They are modelled below, each in a subsection of its
  own, before the code of the file itself.

  JavaScript numbers are modelled as reals. Every numeric constant of the file is a small
  integer or a multiple of 0.25, so none of them is rounded when it is stored in a
  \<^verbatim>\<open>Float32Array\<close>; the rounding of matrix arithmetic is not modelled.

  Arrays are modelled as values. The matrices given to \<^verbatim>\<open>render\<close> are therefore taken
  to be arrays of the caller, not the arrays \<^verbatim>\<open>this.mMatrix\<close> and \<^verbatim>\<open>this.mvMatrix\<close>
  of the instance, which \<^verbatim>\<open>render\<close> overwrites. The context is taken not to be lost:
  creating a program, a texture or a buffer yields an object, never \<^verbatim>\<open>null\<close>.
\<close>

subsection \<open>Vectors and matrices\<close>

text \<open>
  A \<^verbatim>\<open>mat4\<close> is an array of 16 numbers in column-major order, the order WebGL reads
  with \<^verbatim>\<open>transpose = false\<close>: entries 0..3 are the first column. It is modelled as
  four columns of four numbers, so that it always has its 16 entries.
\<close>

type_synonym vec3 = "real \<times> real \<times> real"
type_synonym vec4 = "real \<times> real \<times> real \<times> real"
type_synonym mat4 = "vec4 \<times> vec4 \<times> vec4 \<times> vec4"

definition scale4 :: "real \<Rightarrow> vec4 \<Rightarrow> vec4" where
  "scale4 k v = (case v of (a, b, c, d) \<Rightarrow> (k * a, k * b, k * c, k * d))"

definition add4 :: "vec4 \<Rightarrow> vec4 \<Rightarrow> vec4" where
  "add4 u v = (case u of (a, b, c, d) \<Rightarrow> case v of (a', b', c', d') \<Rightarrow>
     (a + a', b + b', c + c', d + d'))"

definition identity_matrix :: mat4 where
  "identity_matrix = ((1, 0, 0, 0), (0, 1, 0, 0), (0, 0, 1, 0), (0, 0, 0, 1))"

definition translation_matrix :: "vec3 \<Rightarrow> mat4" where
  "translation_matrix v = (case v of (x, y, z) \<Rightarrow>
     ((1, 0, 0, 0), (0, 1, 0, 0), (0, 0, 1, 0), (x, y, z, 1)))"





subsection \<open>The matrix library (glMatrix)\<close>

text \<open>
  \<^verbatim>\<open>mat4\<close> and \<^verbatim>\<open>vec3\<close> are globals of the page and their code is not in
  GLSkybox.js. The file calls them as \<^verbatim>\<open>mat4.create()\<close>,
  \<^verbatim>\<open>vec3.create([x, y, z])\<close>, \<^verbatim>\<open>mat4.identity(dest)\<close>,
  \<^verbatim>\<open>mat4.translate(mat, vec)\<close> (in place) and \<^verbatim>\<open>mat4.multiply(a, b, dest)\<close>.
  The functions below give the value each call leaves in its destination.
\<close>

text \<open>Modelled from the spec: \<^verbatim>\<open>mat4.create()\<close> is missing from the sources; the
  spec says construction "initializes model matrix, model-view matrix, and position to
  identity/zero", so a created matrix is the identity.\<close>

definition mat4_create :: mat4 where
  "mat4_create = identity_matrix"

text \<open>Modelled from the spec: \<^verbatim>\<open>vec3.create(v)\<close> is missing from the sources; it
  returns a new vector with the three numbers it is given.\<close>

definition vec3_create :: "vec3 \<Rightarrow> vec3" where
  "vec3_create v = v"

text \<open>Modelled from the spec: \<^verbatim>\<open>mat4.identity(dest)\<close> is missing from the sources;
  the spec says render "resets the model matrix to identity".\<close>

definition mat4_identity :: "mat4 \<Rightarrow> mat4" where
  "mat4_identity dest = identity_matrix"

text \<open>Modelled from the spec: \<^verbatim>\<open>mat4.translate(mat, vec)\<close> is missing from the
  sources; the spec says render "applies the stored translation": the matrix is
  multiplied on the right by the translation, which changes its last column only.\<close>

definition mat4_translate :: "mat4 \<Rightarrow> vec3 \<Rightarrow> mat4" where
  "mat4_translate m v = (case m of (c0, c1, c2, c3) \<Rightarrow> case v of (x, y, z) \<Rightarrow>
     (c0, c1, c2, add4 (add4 (add4 (scale4 x c0) (scale4 y c1)) (scale4 z c2)) c3))"

text \<open>Modelled from the spec: \<^verbatim>\<open>mat4.multiply(a, b, dest)\<close> is missing from the
  sources; the spec says render "computes model-view = view \<times> model" with
  \<open>a\<close> the view and \<open>b\<close> the model matrix. Column \<open>j\<close> of the product is \<open>a\<close>
  applied to column \<open>j\<close> of \<open>b\<close>.\<close>

definition mat4_apply :: "mat4 \<Rightarrow> vec4 \<Rightarrow> vec4" where
  "mat4_apply a v = (case a of (c0, c1, c2, c3) \<Rightarrow> case v of (x, y, z, w) \<Rightarrow>
     add4 (add4 (add4 (scale4 x c0) (scale4 y c1)) (scale4 z c2)) (scale4 w c3))"

definition mat4_multiply :: "mat4 \<Rightarrow> mat4 \<Rightarrow> mat4" where
  "mat4_multiply a b = (case b of (b0, b1, b2, b3) \<Rightarrow>
     (mat4_apply a b0, mat4_apply a b1, mat4_apply a b2, mat4_apply a b3))"

subsection \<open>The WebGL context\<close>

text \<open>
  The constants of the context that the file names, and the calls it makes. A WebGL
  object (program, shader, buffer, texture) is a pair of the context that created it and
  a name; \<^verbatim>\<open>null\<close> is \<open>None\<close>.
\<close>

datatype GLenum =
    DEPTH_TEST | ARRAY_BUFFER | ELEMENT_ARRAY_BUFFER | STATIC_DRAW
  | FRAGMENT_SHADER | VERTEX_SHADER
  | TEXTURE_2D | RGBA | UNSIGNED_BYTE | UNPACK_FLIP_Y_WEBGL
  | TEXTURE_MAG_FILTER | TEXTURE_MIN_FILTER | LINEAR
  | FLOAT | TEXTURE0 | TRIANGLES | UNSIGNED_SHORT

type_synonym handle = "nat \<times> nat"
type_synonym uniform_location = "handle \<times> string"

datatype typed_array =
    Float32Array "real list" | Uint16Array "nat list" | Uint8Array "nat list"

definition new_Uint16Array :: "nat list \<Rightarrow> typed_array" where
  "new_Uint16Array xs = Uint16Array (map (\<lambda>x. x mod 65536) xs)"

definition new_Uint8Array :: "nat list \<Rightarrow> typed_array" where
  "new_Uint8Array xs = Uint8Array (map (\<lambda>x. x mod 256) xs)"

definition new_Float32Array :: "real list \<Rightarrow> typed_array" where
  "new_Float32Array xs = Float32Array xs"

text \<open>What a texture holds at level 0: raw RGBA bytes with their width and height, or
  the pixels of an image element (its source, and whether it was flipped on upload).\<close>

datatype tex_image = Pixels nat nat "nat list" | ImagePixels string bool

datatype gl_call =
    AttachShader handle handle
  | LinkProgram handle
  | UseProgram "handle option"
  | EnableVertexAttribArray int
  | BindBuffer GLenum "handle option"
  | BufferData GLenum typed_array GLenum
  | BindTexture GLenum "handle option"
  | TexImage2D_data GLenum nat GLenum nat nat nat GLenum GLenum typed_array
  | TexImage2D_image GLenum nat GLenum GLenum GLenum string
  | PixelStorei GLenum int
  | TexParameteri GLenum GLenum GLenum
  | Disable GLenum
  | Enable GLenum
  | VertexAttribPointer int nat GLenum bool nat nat
  | CreateProgram | CreateTexture | CreateBuffer
  | GetAttribLocation handle string
  | GetUniformLocation handle string
  | ActiveTexture GLenum
  | Uniform1i "uniform_location option" int
  | UniformMatrix4fv "uniform_location option" bool mat4
  | DrawElements GLenum nat GLenum nat

text \<open>
  The part of the context's state that the file reads or that its calls change and a
  property below speaks of, and the list of all calls made on the context, oldest first.
\<close>

record gl_ctx =
  depth_test :: bool
  current_program :: "handle option"
  array_buffer_binding :: "handle option"
  element_array_buffer_binding :: "handle option"
  active_texture :: nat
  texture_binding_2d :: "nat \<Rightarrow> handle option"
  unpack_flip_y :: bool
  buffer_store :: "handle \<Rightarrow> typed_array option"
  texture_store :: "handle \<Rightarrow> tex_image option"
  next_name :: nat
  calls :: "gl_call list"

text \<open>An object of another context is refused (INVALID_OPERATION) wherever one is bound.\<close>

definition owned :: "nat \<Rightarrow> handle option \<Rightarrow> bool" where
  "owned g h = (case h of None \<Rightarrow> True | Some (c, n) \<Rightarrow> c = g)"

text \<open>The rows of a \<open>width \<times> height\<close> RGBA byte image in reverse order
  (\<^verbatim>\<open>UNPACK_FLIP_Y_WEBGL\<close>).\<close>

definition flip_y :: "nat \<Rightarrow> nat \<Rightarrow> nat list \<Rightarrow> nat list" where
  "flip_y width height px =
     concat (map (\<lambda>r. take (4 * width) (drop (4 * width * r) px)) (rev [0..<height]))"

text \<open>The effect of one call on the state of context \<open>g\<close>, after the WebGL 1.0
  specification. A call that WebGL rejects with an error code, and a call whose effect is
  on state not kept here, changes nothing.\<close>

fun gl_effect :: "nat \<Rightarrow> gl_call \<Rightarrow> gl_ctx \<Rightarrow> gl_ctx" where
  "gl_effect g (Enable cap) c = (if cap = DEPTH_TEST then c\<lparr>depth_test := True\<rparr> else c)"
| "gl_effect g (Disable cap) c = (if cap = DEPTH_TEST then c\<lparr>depth_test := False\<rparr> else c)"
| "gl_effect g (UseProgram p) c = (if owned g p then c\<lparr>current_program := p\<rparr> else c)"
| "gl_effect g (BindBuffer target b) c =
     (if \<not> owned g b then c
      else if target = ARRAY_BUFFER then c\<lparr>array_buffer_binding := b\<rparr>
      else if target = ELEMENT_ARRAY_BUFFER then c\<lparr>element_array_buffer_binding := b\<rparr>
      else c)"
| "gl_effect g (BufferData target d usage) c =
     (case (if target = ARRAY_BUFFER then array_buffer_binding c
            else if target = ELEMENT_ARRAY_BUFFER then element_array_buffer_binding c
            else None) of
        None \<Rightarrow> c
      | Some b \<Rightarrow> c\<lparr>buffer_store := (buffer_store c)(b := Some d)\<rparr>)"
| "gl_effect g (ActiveTexture t) c = (if t = TEXTURE0 then c\<lparr>active_texture := 0\<rparr> else c)"
| "gl_effect g (BindTexture target t) c =
     (if target = TEXTURE_2D \<and> owned g t
      then c\<lparr>texture_binding_2d := (texture_binding_2d c)(active_texture c := t)\<rparr>
      else c)"
| "gl_effect g (PixelStorei pname v) c =
     (if pname = UNPACK_FLIP_Y_WEBGL then c\<lparr>unpack_flip_y := (v \<noteq> 0)\<rparr> else c)"
| "gl_effect g (TexImage2D_data target level ifmt width height border fmt ty d) c =
     (case texture_binding_2d c (active_texture c) of
        None \<Rightarrow> c
      | Some t \<Rightarrow>
          (case d of
             Uint8Array px \<Rightarrow>
               if target = TEXTURE_2D \<and> level = 0 \<and> ifmt = RGBA \<and> border = 0 \<and> fmt = RGBA
                  \<and> ty = UNSIGNED_BYTE \<and> 4 * width * height \<le> length px
               then c\<lparr>texture_store := (texture_store c)
                      (t := Some (Pixels width height
                         (if unpack_flip_y c then flip_y width height px
                          else take (4 * width * height) px)))\<rparr>
               else c
           | _ \<Rightarrow> c))"
| "gl_effect g (TexImage2D_image target level ifmt fmt ty src) c =
     (case texture_binding_2d c (active_texture c) of
        None \<Rightarrow> c
      | Some t \<Rightarrow>
          if target = TEXTURE_2D \<and> level = 0 \<and> ifmt = RGBA \<and> fmt = RGBA \<and> ty = UNSIGNED_BYTE
          then c\<lparr>texture_store := (texture_store c)(t := Some (ImagePixels src (unpack_flip_y c)))\<rparr>
          else c)"
| "gl_effect g _ c = c"

definition gl_exec :: "nat \<Rightarrow> gl_call \<Rightarrow> gl_ctx \<Rightarrow> gl_ctx" where
  "gl_exec g call c = (gl_effect g call c)\<lparr>calls := calls c @ [call]\<rparr>"

subsection \<open>Exceptions, objects and the state of the page\<close>

text \<open>
  A JavaScript exception is either the \<^verbatim>\<open>TypeError\<close> of reading or writing through
  \<^verbatim>\<open>undefined\<close>, or whatever a collaborator throws.
\<close>

datatype js_exn = TypeError string | Thrown string

definition exn_string :: "js_exn \<Rightarrow> string" where
  "exn_string e = (case e of TypeError m \<Rightarrow> ''TypeError: '' @ m | Thrown m \<Rightarrow> m)"

text \<open>
  The program object with the properties \<^verbatim>\<open>initShader\<close> hangs on it, a buffer object
  with the properties the constructor hangs on it (each \<^verbatim>\<open>undefined\<close> until it is
  assigned), and the skybox itself, every property \<^verbatim>\<open>undefined\<close> until assigned.
\<close>

record shader_obj =
  program :: handle
  vertexPositionAttribute :: int
  vertexCoordsAttribute :: int
  pMatrixUniform :: "uniform_location option"
  mvMatrixUniform :: "uniform_location option"
  samplerUniform :: "uniform_location option"

record buffer_obj =
  buffer :: handle
  itemSize :: "nat option"
  numItems :: "nat option"

record skybox =
  shader :: "shader_obj option"
  texture :: "handle option"
  vBuffer :: "buffer_obj option"
  tBuffer :: "buffer_obj option"
  iBuffer :: "buffer_obj option"
  mMatrix :: "mat4 option"
  mvMatrix :: "mat4 option"
  position :: "vec3 option"

definition undefined_skybox :: skybox where
  "undefined_skybox = \<lparr>shader = None, texture = None, vBuffer = None, tBuffer = None,
     iBuffer = None, mMatrix = None, mvMatrix = None, position = None\<rparr>"

text \<open>
  The state the code runs in: the WebGL contexts by number, the skybox instance
  (\<^verbatim>\<open>this\<close>), the lines written to the console, the image loads started, and the
  environment's choices: which of the calls to a collaborator throws (\<open>faults\<close>, by the
  number of the call, counted by \<open>clock\<close>), and what a linked program answers when
  asked for an attribute or a uniform.
\<close>

record world =
  contexts :: "nat \<Rightarrow> gl_ctx"
  self :: skybox
  console :: "string list"
  image_requests :: "string list"
  faults :: "nat \<Rightarrow> string option"
  clock :: nat
  attrib_locations :: "handle \<Rightarrow> string \<Rightarrow> int"
  active_uniforms :: "handle \<Rightarrow> string \<Rightarrow> bool"

text \<open>The global variable \<^verbatim>\<open>gl\<close> of the page names context 0.\<close>

definition gl :: nat where
  "gl = 0"

text \<open>A statement or expression: it runs in a state, and throws or yields a value.\<close>

type_synonym 'a js = "world \<Rightarrow> (js_exn + 'a) \<times> world"

definition js_return :: "'a \<Rightarrow> 'a js" where
  "js_return x w = (Inr x, w)"

definition js_bind :: "'a js \<Rightarrow> ('a \<Rightarrow> 'b js) \<Rightarrow> 'b js" where
  "js_bind m f w = (case m w of (Inl e, w') \<Rightarrow> (Inl e, w') | (Inr x, w') \<Rightarrow> f x w')"

fun js_block :: "unit js list \<Rightarrow> unit js" where
  "js_block [] = js_return ()"
| "js_block (s # ss) = js_bind s (\<lambda>_. js_block ss)"

declare js_block.simps [simp del]

text \<open>A call to a collaborator (\<^verbatim>\<open>gl\<close>, \<^verbatim>\<open>assets\<close>, \<^verbatim>\<open>mat4\<close>,
  \<^verbatim>\<open>vec3\<close>): the environment may make it throw before it does anything. The built-in
  constructors (typed arrays, \<^verbatim>\<open>Image\<close>) and \<^verbatim>\<open>console.log\<close> do not throw.\<close>

definition external :: "'a js \<Rightarrow> 'a js" where
  "external m w =
     (case faults w (clock w) of
        Some msg \<Rightarrow> (Inl (Thrown msg), w\<lparr>clock := clock w + 1\<rparr>)
      | None \<Rightarrow> m (w\<lparr>clock := clock w + 1\<rparr>))"

text \<open>Reading a property of \<^verbatim>\<open>this\<close>; reading one in order to go through it, which
  throws when it is \<^verbatim>\<open>undefined\<close>; and assigning to properties of \<^verbatim>\<open>this\<close>.\<close>

definition read :: "(skybox \<Rightarrow> 'a) \<Rightarrow> 'a js" where
  "read field w = (Inr (field (self w)), w)"

definition deref :: "(skybox \<Rightarrow> 'a option) \<Rightarrow> string \<Rightarrow> 'a js" where
  "deref field nm w =
     (case field (self w) of
        None \<Rightarrow> (Inl (TypeError (nm @ '' is undefined'')), w)
      | Some x \<Rightarrow> (Inr x, w))"

definition assign :: "(skybox \<Rightarrow> skybox) \<Rightarrow> unit js" where
  "assign f w = (Inr (), w\<lparr>self := f (self w)\<rparr>)"

text \<open>An \<^verbatim>\<open>undefined\<close> property passed where WebGL expects an integer becomes 0.\<close>

definition js_to_int :: "nat option \<Rightarrow> nat" where
  "js_to_int v = (case v of None \<Rightarrow> 0 | Some n \<Rightarrow> n)"

text \<open>Calls on context \<open>g\<close>: one without a result; the creation of an object, which
  returns a new object of the context; and the two queries of a linked program.\<close>

definition on_context :: "nat \<Rightarrow> (gl_ctx \<Rightarrow> gl_ctx) \<Rightarrow> world \<Rightarrow> world" where
  "on_context g f w = w\<lparr>contexts := (contexts w)(g := f (contexts w g))\<rparr>"

definition gl_do :: "nat \<Rightarrow> gl_call \<Rightarrow> unit js" where
  "gl_do g call = external (\<lambda>w. (Inr (), on_context g (gl_exec g call) w))"

definition gl_create :: "nat \<Rightarrow> gl_call \<Rightarrow> handle js" where
  "gl_create g call = external (\<lambda>w.
     (Inr (g, next_name (contexts w g)),
      on_context g (\<lambda>c. (gl_exec g call c)\<lparr>next_name := next_name c + 1\<rparr>) w))"

definition gl_getAttribLocation :: "nat \<Rightarrow> handle \<Rightarrow> string \<Rightarrow> int js" where
  "gl_getAttribLocation g p nm = external (\<lambda>w.
     (Inr (attrib_locations w p nm), on_context g (gl_exec g (GetAttribLocation p nm)) w))"

definition gl_getUniformLocation :: "nat \<Rightarrow> handle \<Rightarrow> string \<Rightarrow> uniform_location option js" where
  "gl_getUniformLocation g p nm = external (\<lambda>w.
     (Inr (if active_uniforms w p nm then Some (p, nm) else None),
      on_context g (gl_exec g (GetUniformLocation p nm)) w))"

text \<open>Modelled from the spec: \<^verbatim>\<open>assets.getShader\<close> is missing from the sources; the
  spec gives it as \<^verbatim>\<open>getShader(context, path, shaderKind) -> compiledShaderHandle\<close>
  and says that a shader that does not compile makes construction fail with an exception.
  It returns a new object of the context, or throws as any collaborator may.\<close>

definition assets_getShader :: "nat \<Rightarrow> string \<Rightarrow> GLenum \<Rightarrow> handle js" where
  "assets_getShader g path kind = external (\<lambda>w.
     (Inr (g, next_name (contexts w g)),
      on_context g (\<lambda>c. c\<lparr>next_name := next_name c + 1\<rparr>) w))"

definition console_log :: "string \<Rightarrow> world \<Rightarrow> world" where
  "console_log line w = w\<lparr>console := console w @ [line]\<rparr>"

text \<open>\<^verbatim>\<open>image.src = ...\<close> on an image whose \<^verbatim>\<open>onload\<close> is set starts the load;
  the callback runs later, if ever, when the platform calls it.\<close>

definition start_load :: "string \<Rightarrow> unit js" where
  "start_load src w = (Inr (), w\<lparr>image_requests := image_requests w @ [src]\<rparr>)"

subsection \<open>GLSkybox.js\<close>

text \<open>The three arrays of the constructor (lines 36 to 74).\<close>

definition vertices :: "real list" where
  "vertices = [
     -1.0, -1.0, -1.0, 1.0, -1.0, -1.0, 1.0, 1.0, -1.0, -1.0, 1.0, -1.0,
     1.0, -1.0, 1.0, -1.0, -1.0, 1.0, -1.0, 1.0, 1.0, 1.0, 1.0, 1.0,
     -1.0, 1.0, -1.0, 1.0, 1.0, -1.0, 1.0, 1.0, 1.0, -1.0, 1.0, 1.0,
     -1.0, -1.0, 1.0, 1.0, -1.0, 1.0, 1.0, -1.0, -1.0, -1.0, -1.0, -1.0,
     -1.0, -1.0, 1.0, -1.0, -1.0, -1.0, -1.0, 1.0, -1.0, -1.0, 1.0, 1.0,
     1.0, -1.0, -1.0, 1.0, -1.0, 1.0, 1.0, 1.0, 1.0, 1.0, 1.0, -1.0]"

definition coords :: "real list" where
  "coords = [
     0.25, 0.50, 0.50, 0.50, 0.50, 0.75, 0.25, 0.75,
     0.75, 0.50, 1.00, 0.50, 1.00, 0.75, 0.75, 0.75,
     0.25, 0.75, 0.50, 0.75, 0.50, 1.00, 0.25, 1.00,
     0.25, 0.25, 0.50, 0.25, 0.50, 0.50, 0.25, 0.50,
     0.00, 0.50, 0.25, 0.50, 0.25, 0.75, 0.00, 0.75,
     0.50, 0.50, 0.75, 0.50, 0.75, 0.75, 0.50, 0.75]"

definition indices :: "nat list" where
  "indices = [
     0, 1, 2, 0, 2, 3,
     4, 5, 6, 4, 6, 7,
     8, 9, 10, 8, 10, 11,
     12, 13, 14, 12, 14, 15,
     16, 17, 18, 16, 18, 19,
     20, 21, 22, 20, 22, 23]"

text \<open>\<^verbatim>\<open>GLSkybox.prototype.initShader\<close> (lines 106 to 135). It uses the global
  \<^verbatim>\<open>gl\<close>. The properties are set on the local program object, which becomes
  \<^verbatim>\<open>this.shader\<close> in the last statement.\<close>

definition initShader :: "unit js" where
  "initShader =
     js_bind (gl_create gl CreateProgram) (\<lambda>sh.
     js_bind (assets_getShader gl ''./shaders/GLSkyboxF.c'' FRAGMENT_SHADER) (\<lambda>fragment.
     js_bind (assets_getShader gl ''./shaders/GLSkyboxV.c'' VERTEX_SHADER) (\<lambda>vertex.
     js_bind (gl_do gl (AttachShader sh fragment)) (\<lambda>_.
     js_bind (gl_do gl (AttachShader sh vertex)) (\<lambda>_.
     js_bind (gl_do gl (LinkProgram sh)) (\<lambda>_.
     js_bind (gl_do gl (UseProgram (Some sh))) (\<lambda>_.
     js_bind (gl_getAttribLocation gl sh ''aVertexPosition'') (\<lambda>vpa.
     js_bind (gl_do gl (EnableVertexAttribArray vpa)) (\<lambda>_.
     js_bind (gl_getAttribLocation gl sh ''aVertexCoords'') (\<lambda>vca.
     js_bind (gl_do gl (EnableVertexAttribArray vca)) (\<lambda>_.
     js_bind (gl_getUniformLocation gl sh ''uPMatrix'') (\<lambda>pm.
     js_bind (gl_getUniformLocation gl sh ''uMVMatrix'') (\<lambda>mvm.
     js_bind (gl_getUniformLocation gl sh ''uSampler'') (\<lambda>sm.
     assign (\<lambda>s. s\<lparr>shader := Some \<lparr>program = sh,
       vertexPositionAttribute = vpa, vertexCoordsAttribute = vca,
       pMatrixUniform = pm, mvMatrixUniform = mvm, samplerUniform = sm\<rparr>\<rparr>)))))))))))))))"

text \<open>The \<^verbatim>\<open>image.onload\<close> callback of \<^verbatim>\<open>initTexture\<close> (lines 152 to 159), for
  the image \<open>img\<close>, given by its source. It reads \<^verbatim>\<open>_this.texture\<close> when it runs. The
  JavaScript \<^verbatim>\<open>true\<close> given to \<^verbatim>\<open>pixelStorei\<close> is the integer 1.\<close>

definition image_onload :: "string \<Rightarrow> unit js" where
  "image_onload img = js_block [
     js_bind (read texture) (\<lambda>t. gl_do gl (BindTexture TEXTURE_2D t)),
     gl_do gl (PixelStorei UNPACK_FLIP_Y_WEBGL 1),
     gl_do gl (TexImage2D_image TEXTURE_2D 0 RGBA RGBA UNSIGNED_BYTE img),
     gl_do gl (TexParameteri TEXTURE_2D TEXTURE_MAG_FILTER LINEAR),
     gl_do gl (TexParameteri TEXTURE_2D TEXTURE_MIN_FILTER LINEAR),
     gl_do gl (BindTexture TEXTURE_2D None)]"

text \<open>\<^verbatim>\<open>GLSkybox.prototype.initTexture\<close> (lines 137 to 161).\<close>

definition initTexture :: "unit js" where
  "initTexture = js_block [
     js_bind (gl_create gl CreateTexture) (\<lambda>t. assign (\<lambda>s. s\<lparr>texture := Some t\<rparr>)),
     js_bind (read texture) (\<lambda>t. gl_do gl (BindTexture TEXTURE_2D t)),
     gl_do gl (TexImage2D_data TEXTURE_2D 0 RGBA 1 1 0 RGBA UNSIGNED_BYTE
       (new_Uint8Array [0, 0, 200, 255])),
     start_load ''./images/skybox/skybox.png'']"

text \<open>\<^verbatim>\<open>GLSkybox.prototype.render\<close> (lines 163 to 202). The three calls to the
  matrix library write the array that \<^verbatim>\<open>this.mMatrix\<close> or \<^verbatim>\<open>this.mvMatrix\<close>
  refers to, and throw when it is \<^verbatim>\<open>undefined\<close>.\<close>

definition render :: "mat4 \<Rightarrow> mat4 \<Rightarrow> unit js" where
  "render pMatrix vMatrix = js_block [
     external (js_bind (deref mMatrix ''this.mMatrix'') (\<lambda>m.
       assign (\<lambda>s. s\<lparr>mMatrix := Some (mat4_identity m)\<rparr>))),
     external (js_bind (deref mMatrix ''this.mMatrix'') (\<lambda>m.
       js_bind (deref position ''this.position'') (\<lambda>v.
       assign (\<lambda>s. s\<lparr>mMatrix := Some (mat4_translate m v)\<rparr>)))),
     gl_do gl (Disable DEPTH_TEST),
     js_bind (read shader) (\<lambda>sh. gl_do gl (UseProgram (map_option program sh))),
     js_bind (read vBuffer) (\<lambda>b. gl_do gl (BindBuffer ARRAY_BUFFER (map_option buffer b))),
     js_bind (deref shader ''this.shader'') (\<lambda>sh.
       js_bind (deref vBuffer ''this.vBuffer'') (\<lambda>b.
       gl_do gl (VertexAttribPointer (vertexPositionAttribute sh) (js_to_int (itemSize b))
         FLOAT False 0 0))),
     js_bind (read tBuffer) (\<lambda>b. gl_do gl (BindBuffer ARRAY_BUFFER (map_option buffer b))),
     js_bind (deref shader ''this.shader'') (\<lambda>sh.
       js_bind (deref tBuffer ''this.tBuffer'') (\<lambda>b.
       gl_do gl (VertexAttribPointer (vertexCoordsAttribute sh) (js_to_int (itemSize b))
         FLOAT False 0 0))),
     gl_do gl (ActiveTexture TEXTURE0),
     js_bind (read texture) (\<lambda>t. gl_do gl (BindTexture TEXTURE_2D t)),
     js_bind (deref shader ''this.shader'') (\<lambda>sh. gl_do gl (Uniform1i (samplerUniform sh) 0)),
     js_bind (read iBuffer) (\<lambda>b.
       gl_do gl (BindBuffer ELEMENT_ARRAY_BUFFER (map_option buffer b))),
     js_bind (deref shader ''this.shader'') (\<lambda>sh.
       gl_do gl (UniformMatrix4fv (pMatrixUniform sh) False pMatrix)),
     external (js_bind (deref mMatrix ''this.mMatrix'') (\<lambda>m.
       js_bind (deref mvMatrix ''this.mvMatrix'') (\<lambda>d.
       assign (\<lambda>s. s\<lparr>mvMatrix := Some (mat4_multiply vMatrix m)\<rparr>)))),
     js_bind (deref shader ''this.shader'') (\<lambda>sh.
       js_bind (deref mvMatrix ''this.mvMatrix'') (\<lambda>mv.
       gl_do gl (UniformMatrix4fv (mvMatrixUniform sh) False mv))),
     js_bind (deref iBuffer ''this.iBuffer'') (\<lambda>b.
       gl_do gl (DrawElements TRIANGLES (js_to_int (numItems b)) UNSIGNED_SHORT 0)),
     gl_do gl (Enable DEPTH_TEST)]"

text \<open>The body of the constructor's \<^verbatim>\<open>try\<close> (lines 29 to 100). The constructor's
  parameter \<^verbatim>\<open>gl\<close> hides the global of that name in the constructor only: the buffers
  are made on the context that is passed, the shader and the texture on the global one.\<close>

definition set_vBuffer :: "(buffer_obj \<Rightarrow> buffer_obj) \<Rightarrow> unit js" where
  "set_vBuffer f = js_bind (deref vBuffer ''this.vBuffer'') (\<lambda>b.
     assign (\<lambda>s. s\<lparr>vBuffer := Some (f b)\<rparr>))"

definition set_tBuffer :: "(buffer_obj \<Rightarrow> buffer_obj) \<Rightarrow> unit js" where
  "set_tBuffer f = js_bind (deref tBuffer ''this.tBuffer'') (\<lambda>b.
     assign (\<lambda>s. s\<lparr>tBuffer := Some (f b)\<rparr>))"

definition set_iBuffer :: "(buffer_obj \<Rightarrow> buffer_obj) \<Rightarrow> unit js" where
  "set_iBuffer f = js_bind (deref iBuffer ''this.iBuffer'') (\<lambda>b.
     assign (\<lambda>s. s\<lparr>iBuffer := Some (f b)\<rparr>))"

definition new_buffer :: "handle \<Rightarrow> buffer_obj" where
  "new_buffer h = \<lparr>buffer = h, itemSize = None, numItems = None\<rparr>"

definition GLSkybox_try :: "nat \<Rightarrow> unit js" where
  "GLSkybox_try gl_arg = js_block [
     initShader,
     initTexture,
     js_bind (gl_create gl_arg CreateBuffer) (\<lambda>h.
       assign (\<lambda>s. s\<lparr>vBuffer := Some (new_buffer h)\<rparr>)),
     js_bind (read vBuffer) (\<lambda>b. gl_do gl_arg (BindBuffer ARRAY_BUFFER (map_option buffer b))),
     gl_do gl_arg (BufferData ARRAY_BUFFER (new_Float32Array vertices) STATIC_DRAW),
     set_vBuffer (\<lambda>b. b\<lparr>itemSize := Some 3\<rparr>),
     set_vBuffer (\<lambda>b. b\<lparr>numItems := Some 24\<rparr>),
     js_bind (gl_create gl_arg CreateBuffer) (\<lambda>h.
       assign (\<lambda>s. s\<lparr>tBuffer := Some (new_buffer h)\<rparr>)),
     js_bind (read tBuffer) (\<lambda>b. gl_do gl_arg (BindBuffer ARRAY_BUFFER (map_option buffer b))),
     gl_do gl_arg (BufferData ARRAY_BUFFER (new_Float32Array coords) STATIC_DRAW),
     set_tBuffer (\<lambda>b. b\<lparr>itemSize := Some 2\<rparr>),
     set_tBuffer (\<lambda>b. b\<lparr>numItems := Some 24\<rparr>),
     js_bind (gl_create gl_arg CreateBuffer) (\<lambda>h.
       assign (\<lambda>s. s\<lparr>iBuffer := Some (new_buffer h)\<rparr>)),
     js_bind (read iBuffer) (\<lambda>b.
       gl_do gl_arg (BindBuffer ELEMENT_ARRAY_BUFFER (map_option buffer b))),
     gl_do gl_arg (BufferData ELEMENT_ARRAY_BUFFER (new_Uint16Array indices) STATIC_DRAW),
     set_iBuffer (\<lambda>b. b\<lparr>itemSize := Some 1\<rparr>),
     set_iBuffer (\<lambda>b. b\<lparr>numItems := Some 36\<rparr>),
     js_bind (external (js_return mat4_create)) (\<lambda>m. assign (\<lambda>s. s\<lparr>mMatrix := Some m\<rparr>)),
     js_bind (external (js_return mat4_create)) (\<lambda>m. assign (\<lambda>s. s\<lparr>mvMatrix := Some m\<rparr>)),
     js_bind (external (js_return (vec3_create (0.0, 0.0, 0.0)))) (\<lambda>v.
       assign (\<lambda>s. s\<lparr>position := Some v\<rparr>))]"

text \<open>\<^verbatim>\<open>new GLSkybox(gl)\<close> (lines 24 to 104): a new object, the body of the
  \<^verbatim>\<open>try\<close>, and the \<^verbatim>\<open>catch\<close>, which writes the exception to the console. The
  result is the state with the new instance in it; there is no exception to return.\<close>

definition GLSkybox :: "nat \<Rightarrow> world \<Rightarrow> world" where
  "GLSkybox gl_arg w =
     (case GLSkybox_try gl_arg (w\<lparr>self := undefined_skybox\<rparr>) of
        (Inr _, w') \<Rightarrow> w'
      | (Inl err, w') \<Rightarrow> console_log (''GLSkybox: '' @ exn_string err) w')"

text \<open>The operations of an instance that the page can run once it is constructed, and a
  run of several of them. An exception of one operation goes to the page and the next
  operation finds the state as the failed one left it.\<close>

datatype operation = Render mat4 mat4 | InitShader | InitTexture | ImageOnload

definition operate :: "operation \<Rightarrow> unit js" where
  "operate op = (case op of
     Render p v \<Rightarrow> render p v
   | InitShader \<Rightarrow> initShader
   | InitTexture \<Rightarrow> initTexture
   | ImageOnload \<Rightarrow> image_onload ''./images/skybox/skybox.png'')"

fun run :: "operation list \<Rightarrow> world \<Rightarrow> world" where
  "run [] w = w"
| "run (op # ops) w = run ops (snd (operate op w))"

subsection \<open>The texture atlas\<close>

text \<open>The six faces of the cube, in the order in which the rows of \<open>vertices\<close>,
  \<open>coords\<close> and \<open>indices\<close> list them (the comments at the end of each row).\<close>

datatype face = Front | Back | Top | Bottom | Left | Right

fun face_index :: "face \<Rightarrow> nat" where
  "face_index Front = 0"
| "face_index Back = 1"
| "face_index Top = 2"
| "face_index Bottom = 3"
| "face_index Left = 4"
| "face_index Right = 5"

text \<open>The layout of the image that the comment of lines 45 to 56 draws, top row first;
  \<open>None\<close> is an empty cell (EM).\<close>

definition atlas_layout :: "face option list list" where
  "atlas_layout = [
     [None, Some Top, None, None],
     [Some Left, Some Front, Some Right, Some Back],
     [None, Some Bottom, None, None],
     [None, None, None, None]]"

fun find_index_of :: "'a \<Rightarrow> 'a list \<Rightarrow> nat option" where
  "find_index_of x [] = None"
| "find_index_of x (y # ys) =
     (if x = y then Some 0 else map_option (\<lambda>i. i + 1) (find_index_of x ys))"

fun find_cell :: "face \<Rightarrow> face option list list \<Rightarrow> (nat \<times> nat) option" where
  "find_cell f [] = None"
| "find_cell f (row # rows) =
     (case find_index_of (Some f) row of
        Some col \<Rightarrow> Some (0, col)
      | None \<Rightarrow> map_option (\<lambda>(r, c). (r + 1, c)) (find_cell f rows))"

text \<open>The cell (row from the top, column from the left) of a face in the layout.\<close>

definition atlas_cell :: "face \<Rightarrow> (nat \<times> nat) option" where
  "atlas_cell f = find_cell f atlas_layout"

text \<open>The quadrant of a cell in texture coordinates. The image is flipped when it is
  uploaded (\<^verbatim>\<open>UNPACK_FLIP_Y_WEBGL\<close>), so its top row is the one with the largest
  \<open>v\<close>: row \<open>r\<close> spans \<open>v\<close> from \<open>(3 - r) / 4\<close> to \<open>(4 - r) / 4\<close>, column
  \<open>c\<close> spans \<open>u\<close> from \<open>c / 4\<close> to \<open>(c + 1) / 4\<close>.\<close>

definition in_quadrant :: "nat \<times> nat \<Rightarrow> real \<times> real \<Rightarrow> bool" where
  "in_quadrant cell uv = (case cell of (r, c) \<Rightarrow> case uv of (u, v) \<Rightarrow>
     real c / 4 \<le> u \<and> u \<le> (real c + 1) / 4 \<and> (3 - real r) / 4 \<le> v \<and> v \<le> (4 - real r) / 4)"

definition in_assigned_quadrant :: "face \<Rightarrow> real \<times> real \<Rightarrow> bool" where
  "in_assigned_quadrant f uv = (case atlas_cell f of None \<Rightarrow> False | Some cell \<Rightarrow> in_quadrant cell uv)"

fun pairs :: "'a list \<Rightarrow> ('a \<times> 'a) list" where
  "pairs (u # v # rest) = (u, v) # pairs rest"
| "pairs _ = []"

text \<open>The texture coordinates of the four vertices of a face: its row of \<open>coords\<close>.\<close>

definition face_coords :: "face \<Rightarrow> (real \<times> real) list" where
  "face_coords f = pairs (take 8 (drop (8 * face_index f) coords))"

subsection \<open>Notions used to state the properties\<close>

text \<open>The instance has all the properties that \<open>render\<close> goes through.\<close>

definition ready :: "world \<Rightarrow> bool" where
  "ready w = (shader (self w) \<noteq> None \<and> vBuffer (self w) \<noteq> None \<and> tBuffer (self w) \<noteq> None
     \<and> iBuffer (self w) \<noteq> None \<and> mMatrix (self w) \<noteq> None \<and> mvMatrix (self w) \<noteq> None
     \<and> position (self w) \<noteq> None)"

text \<open>The environment makes no call throw.\<close>

definition no_faults :: "world \<Rightarrow> bool" where
  "no_faults w = (faults w = (\<lambda>_. None))"

text \<open>\<^verbatim>\<open>new GLSkybox(gl_arg)\<close> in state \<open>w\<close> ran its \<^verbatim>\<open>try\<close> to the end.\<close>

definition construction_succeeds :: "nat \<Rightarrow> world \<Rightarrow> bool" where
  "construction_succeeds gl_arg w =
     (fst (GLSkybox_try gl_arg (w\<lparr>self := undefined_skybox\<rparr>)) = Inr ())"

text \<open>The calls made on the global context between two states, the draw calls among a
  list of calls, and the matrices uploaded by a list of calls.\<close>

definition gl_calls_since :: "world \<Rightarrow> world \<Rightarrow> gl_call list" where
  "gl_calls_since w w' = drop (length (calls (contexts w gl))) (calls (contexts w' gl))"

fun is_draw :: "gl_call \<Rightarrow> bool" where
  "is_draw (DrawElements mode n ty off) = True"
| "is_draw _ = False"

definition draws :: "gl_call list \<Rightarrow> gl_call list" where
  "draws cs = filter is_draw cs"



fun is_render :: "operation \<Rightarrow> bool" where
  "is_render (Render p v) = True"
| "is_render _ = False"

text \<open>The calls, in order, that a \<open>render\<close> that returns makes on the global context.\<close>

definition render_calls :: "skybox \<Rightarrow> mat4 \<Rightarrow> mat4 \<Rightarrow> gl_call list" where
  "render_calls s p v = (case (shader s, vBuffer s, tBuffer s, iBuffer s, position s) of
     (Some sh, Some vb, Some tb, Some ib, Some pos) \<Rightarrow>
       [Disable DEPTH_TEST,
        UseProgram (Some (program sh)),
        BindBuffer ARRAY_BUFFER (Some (buffer vb)),
        VertexAttribPointer (vertexPositionAttribute sh) (js_to_int (itemSize vb)) FLOAT False 0 0,
        BindBuffer ARRAY_BUFFER (Some (buffer tb)),
        VertexAttribPointer (vertexCoordsAttribute sh) (js_to_int (itemSize tb)) FLOAT False 0 0,
        ActiveTexture TEXTURE0,
        BindTexture TEXTURE_2D (texture s),
        Uniform1i (samplerUniform sh) 0,
        BindBuffer ELEMENT_ARRAY_BUFFER (Some (buffer ib)),
        UniformMatrix4fv (pMatrixUniform sh) False p,
        UniformMatrix4fv (mvMatrixUniform sh) False
          (mat4_multiply v (mat4_translate identity_matrix pos)),
        DrawElements TRIANGLES (js_to_int (numItems ib)) UNSIGNED_SHORT 0,
        Enable DEPTH_TEST]
   | _ \<Rightarrow> [])"

definition gl_run :: "nat \<Rightarrow> gl_call list \<Rightarrow> gl_ctx \<Rightarrow> gl_ctx" where
  "gl_run g cs c = foldl (\<lambda>c call. gl_exec g call c) c cs"

text \<open>A statement keeps a property of the state, whether it returns or throws; and it
  keeps it in the states in which it throws.\<close>

definition keeps :: "(world \<Rightarrow> bool) \<Rightarrow> 'a js \<Rightarrow> bool" where
  "keeps P m = (\<forall>w. P w \<longrightarrow> P (snd (m w)))"

definition keeps_on_throw :: "(world \<Rightarrow> bool) \<Rightarrow> 'a js \<Rightarrow> bool" where
  "keeps_on_throw P m = (\<forall>w e w'. P w \<and> m w = (Inl e, w') \<longrightarrow> P w')"

text \<open>States to try the properties on: a context in which nothing is bound, depth
  testing is off and texture unit 3 is active; a page in which nothing throws; and the same
  page when the second call to a collaborator, the loading of the fragment shader, throws.\<close>

definition ctx0 :: gl_ctx where
  "ctx0 = \<lparr>depth_test = False, current_program = None, array_buffer_binding = None,
     element_array_buffer_binding = None, active_texture = 3,
     texture_binding_2d = (\<lambda>_. None), unpack_flip_y = False,
     buffer_store = (\<lambda>_. None), texture_store = (\<lambda>_. None), next_name = 0, calls = []\<rparr>"

definition world0 :: world where
  "world0 = \<lparr>contexts = (\<lambda>_. ctx0), self = undefined_skybox, console = [],
     image_requests = [], faults = (\<lambda>_. None), clock = 0,
     attrib_locations = (\<lambda>p nm. if nm = ''aVertexPosition'' then 0 else 1),
     active_uniforms = (\<lambda>p nm. True)\<rparr>"

definition world_failing :: world where
  "world_failing = world0\<lparr>faults := (\<lambda>k. if k = 1 then Some ''compile error'' else None)\<rparr>"

text \<open>An instance as the constructor leaves it, but placed at (1, 2, 3), and a page that
  holds it.\<close>

definition skybox1 :: skybox where
  "skybox1 = \<lparr>
     shader = Some \<lparr>program = (gl, 0), vertexPositionAttribute = 0, vertexCoordsAttribute = 1,
       pMatrixUniform = Some ((gl, 0), ''uPMatrix''),
       mvMatrixUniform = Some ((gl, 0), ''uMVMatrix''),
       samplerUniform = Some ((gl, 0), ''uSampler'')\<rparr>,
     texture = Some (gl, 3),
     vBuffer = Some \<lparr>buffer = (gl, 4), itemSize = Some 3, numItems = Some 24\<rparr>,
     tBuffer = Some \<lparr>buffer = (gl, 5), itemSize = Some 2, numItems = Some 24\<rparr>,
     iBuffer = Some \<lparr>buffer = (gl, 6), itemSize = Some 1, numItems = Some 36\<rparr>,
     mMatrix = Some identity_matrix, mvMatrix = Some identity_matrix,
     position = Some (1, 2, 3)\<rparr>"

definition world1 :: world where
  "world1 = world0\<lparr>self := skybox1\<rparr>"

section \<open>Properties\<close>

subsection \<open>Matrices\<close>

lemma mat4_translate_identity:
  "mat4_translate identity_matrix pos = translation_matrix pos"
  by (cases pos) (simp add: mat4_translate_def identity_matrix_def translation_matrix_def
      add4_def scale4_def)




subsection \<open>Statements that return\<close>

lemma js_bind_Inr:
  "(js_bind m f w = (Inr x, w')) = (\<exists>y w1. m w = (Inr y, w1) \<and> f y w1 = (Inr x, w'))"
  by (auto simp: js_bind_def split: prod.splits sum.splits)

lemma js_return_Inr: "(js_return v w = (Inr x, w')) = (x = v \<and> w' = w)"
  by (auto simp: js_return_def)

lemma external_Inr:
  "(external m w = (Inr x, w')) =
     (faults w (clock w) = None \<and> m (w\<lparr>clock := clock w + 1\<rparr>) = (Inr x, w'))"
  by (auto simp: external_def split: option.splits)

lemma read_Inr: "(read f w = (Inr x, w')) = (x = f (self w) \<and> w' = w)"
  by (auto simp: read_def)

lemma deref_Inr: "(deref f nm w = (Inr x, w')) = (f (self w) = Some x \<and> w' = w)"
  by (auto simp: deref_def split: option.splits)

lemma assign_Inr: "(assign f w = (Inr x, w')) = (w' = w\<lparr>self := f (self w)\<rparr>)"
  by (auto simp: assign_def)

lemma start_load_Inr:
  "(start_load src w = (Inr x, w')) = (w' = w\<lparr>image_requests := image_requests w @ [src]\<rparr>)"
  by (auto simp: start_load_def)

lemma gl_do_Inr:
  "(gl_do g call w = (Inr x, w')) =
     (faults w (clock w) = None \<and>
      w' = on_context g (gl_exec g call) (w\<lparr>clock := clock w + 1\<rparr>))"
  by (auto simp: gl_do_def external_Inr)

lemma gl_create_Inr:
  "(gl_create g call w = (Inr h, w')) =
     (faults w (clock w) = None \<and> h = (g, next_name (contexts w g)) \<and>
      w' = on_context g (\<lambda>c. (gl_exec g call c)\<lparr>next_name := next_name c + 1\<rparr>)
             (w\<lparr>clock := clock w + 1\<rparr>))"
  by (auto simp: gl_create_def external_Inr on_context_def)

lemma assets_getShader_Inr:
  "(assets_getShader g path kind w = (Inr h, w')) =
     (faults w (clock w) = None \<and> h = (g, next_name (contexts w g)) \<and>
      w' = on_context g (\<lambda>c. c\<lparr>next_name := next_name c + 1\<rparr>) (w\<lparr>clock := clock w + 1\<rparr>))"
  by (auto simp: assets_getShader_def external_Inr on_context_def)

lemma gl_getAttribLocation_Inr:
  "(gl_getAttribLocation g p nm w = (Inr i, w')) =
     (faults w (clock w) = None \<and> i = attrib_locations w p nm \<and>
      w' = on_context g (gl_exec g (GetAttribLocation p nm)) (w\<lparr>clock := clock w + 1\<rparr>))"
  by (auto simp: gl_getAttribLocation_def external_Inr on_context_def)

lemma gl_getUniformLocation_Inr:
  "(gl_getUniformLocation g p nm w = (Inr l, w')) =
     (faults w (clock w) = None \<and>
      l = (if active_uniforms w p nm then Some (p, nm) else None) \<and>
      w' = on_context g (gl_exec g (GetUniformLocation p nm)) (w\<lparr>clock := clock w + 1\<rparr>))"
  by (auto simp: gl_getUniformLocation_def external_Inr on_context_def)

lemma js_block_Nil_Inr: "(js_block [] w = (Inr x, w')) = (w' = w)"
  by (auto simp: js_return_Inr js_block.simps)

lemma js_block_ConsE:
  assumes "js_block (s # ss) w = (Inr x, w')"
  obtains w1 where "s w = (Inr (), w1)" and "js_block ss w1 = (Inr x, w')"
  using assms by (auto simp: js_bind_Inr js_block.simps)

lemma js_bind_InrE:
  assumes "js_bind m f w = (Inr x, w')"
  obtains y w1 where "m w = (Inr y, w1)" and "f y w1 = (Inr x, w')"
  using assms by (auto simp: js_bind_Inr)

lemma flip_y_pixel: "flip_y (Suc 0) (Suc 0) [r, g, b, a] = [r, g, b, a]"
  by (simp add: flip_y_def)

lemmas exec_simps = js_bind_Inr js_return_Inr external_Inr read_Inr deref_Inr assign_Inr
  start_load_Inr gl_do_Inr gl_create_Inr assets_getShader_Inr gl_getAttribLocation_Inr
  gl_getUniformLocation_Inr js_block_Nil_Inr on_context_def gl_exec_def owned_def
  new_Uint8Array_def new_Uint16Array_def new_Float32Array_def new_buffer_def flip_y_pixel
  set_vBuffer_def set_tBuffer_def set_iBuffer_def

text \<open>What a \<open>render\<close> that returns has done.\<close>

lemma render_normal:
  "render p v w = (Inr (), w') \<Longrightarrow> \<exists>sh vb tb ib m mv pos.
     shader (self w) = Some sh \<and> vBuffer (self w) = Some vb \<and> tBuffer (self w) = Some tb
     \<and> iBuffer (self w) = Some ib \<and> mMatrix (self w) = Some m \<and> mvMatrix (self w) = Some mv
     \<and> position (self w) = Some pos
     \<and> w' = w\<lparr>clock := clock w + 17,
         self := (self w)\<lparr>mMatrix := Some (mat4_translate identity_matrix pos),
                   mvMatrix := Some (mat4_multiply v (mat4_translate identity_matrix pos))\<rparr>,
         contexts := (contexts w)(gl := gl_run gl (render_calls (self w) p v) (contexts w gl))\<rparr>"
  unfolding render_def
  apply (erule js_block_ConsE,
      clarsimp simp: js_bind_Inr external_Inr read_Inr deref_Inr assign_Inr gl_do_Inr on_context_def)+
  apply (clarsimp simp: js_block_Nil_Inr render_calls_def gl_run_def mat4_identity_def)
  done

lemma calls_gl_run: "calls (gl_run g cs c) = calls c @ cs"
  by (induction cs arbitrary: c rule: rev_induct) (simp_all add: gl_run_def gl_exec_def)

lemma render_calls_since:
  assumes "render p v w = (Inr (), w')"
  shows "gl_calls_since w w' = render_calls (self w) p v"
  using render_normal [OF assms] by (auto simp: gl_calls_since_def calls_gl_run)

text \<open>Running forward when nothing throws.\<close>

lemmas forward_simps = js_block.simps js_bind_def js_return_def external_def gl_do_def
  gl_create_def assets_getShader_def gl_getAttribLocation_def gl_getUniformLocation_def
  read_def deref_def assign_def start_load_def on_context_def
  set_vBuffer_def set_tBuffer_def set_iBuffer_def

lemma render_returns:
  "ready w \<Longrightarrow> no_faults w \<Longrightarrow> fst (render p v w) = Inr ()"
  unfolding render_def ready_def no_faults_def
  by (clarsimp simp: forward_simps)

lemma image_onload_returns:
  "no_faults w \<Longrightarrow> fst (image_onload img w) = Inr ()"
  unfolding image_onload_def no_faults_def
  by (simp add: forward_simps)

lemma GLSkybox_try_returns:
  "no_faults w \<Longrightarrow> fst (GLSkybox_try g w) = Inr ()"
  unfolding GLSkybox_try_def initShader_def initTexture_def no_faults_def
  by (simp add: forward_simps)

text \<open>What a constructor whose \<^verbatim>\<open>try\<close> runs to its end has done.\<close>

lemma GLSkybox_try_normal:
  "GLSkybox_try g w = (Inr (), w') \<Longrightarrow> \<exists>sh t vb tb ib.
     shader (self w') = Some sh \<and> texture (self w') = Some (gl, t)
   \<and> vBuffer (self w') = Some \<lparr>buffer = (g, vb), itemSize = Some 3, numItems = Some 24\<rparr>
   \<and> tBuffer (self w') = Some \<lparr>buffer = (g, tb), itemSize = Some 2, numItems = Some 24\<rparr>
   \<and> iBuffer (self w') = Some \<lparr>buffer = (g, ib), itemSize = Some 1, numItems = Some 36\<rparr>
   \<and> mMatrix (self w') = Some mat4_create \<and> mvMatrix (self w') = Some mat4_create
   \<and> position (self w') = Some (vec3_create (0, 0, 0))
   \<and> texture_store (contexts w' gl) (gl, t) = Some (Pixels 1 1 [0, 0, 200, 255])
   \<and> buffer_store (contexts w' g) (g, vb) = Some (Float32Array vertices)
   \<and> buffer_store (contexts w' g) (g, tb) = Some (Float32Array coords)
   \<and> buffer_store (contexts w' g) (g, ib) = Some (Uint16Array indices)
   \<and> console w' = console w \<and> faults w' = faults w"
  unfolding GLSkybox_try_def
  apply (erule js_block_ConsE)
  apply (unfold initShader_def)
  apply (erule js_bind_InrE, clarsimp simp: exec_simps)+
  apply (erule js_block_ConsE)
  apply (unfold initTexture_def)
  apply (erule js_block_ConsE, (clarsimp simp: exec_simps)?)+
  apply (simp add: indices_def)
  done

lemma GLSkybox_success:
  assumes "construction_succeeds g w"
  shows "GLSkybox_try g (w\<lparr>self := undefined_skybox\<rparr>) = (Inr (), GLSkybox g w)"
  using assms
  by (cases "GLSkybox_try g (w\<lparr>self := undefined_skybox\<rparr>)")
     (auto simp: construction_succeeds_def GLSkybox_def)

lemma GLSkybox_ready:
  assumes "construction_succeeds g w"
  shows "ready (GLSkybox g w)"
  using GLSkybox_try_normal [OF GLSkybox_success [OF assms]]
  unfolding ready_def by (elim exE conjE) simp

lemma GLSkybox_faults:
  assumes "construction_succeeds g w"
  shows "faults (GLSkybox g w) = faults w"
  using GLSkybox_try_normal [OF GLSkybox_success [OF assms]]
  by (elim exE conjE) simp

lemma construction_succeeds_world0: "construction_succeeds gl world0"
  unfolding construction_succeeds_def
  by (rule GLSkybox_try_returns) (simp add: no_faults_def world0_def)

subsection \<open>Properties that statements keep\<close>

lemma keeps_bind: "keeps P m \<Longrightarrow> (\<And>x. keeps P (f x)) \<Longrightarrow> keeps P (js_bind m f)"
  by (auto simp: keeps_def js_bind_def split: prod.splits sum.splits)

lemma keeps_block_Nil: "keeps P (js_block [])"
  by (simp add: keeps_def js_block.simps js_return_def)

lemma keeps_block_Cons: "keeps P s \<Longrightarrow> keeps P (js_block ss) \<Longrightarrow> keeps P (js_block (s # ss))"
  by (simp add: js_block.simps keeps_bind)

lemma keeps_return: "keeps P (js_return x)"
  by (simp add: keeps_def js_return_def)

lemma keeps_read: "keeps P (read f)"
  by (simp add: keeps_def read_def)

lemma keeps_deref: "keeps P (deref f nm)"
  by (simp add: keeps_def deref_def split: option.splits)

lemma keeps_assign: "(\<And>w. P w \<Longrightarrow> P (w\<lparr>self := f (self w)\<rparr>)) \<Longrightarrow> keeps P (assign f)"
  by (simp add: keeps_def assign_def)

lemma keeps_start_load:
  "(\<And>w. P w \<Longrightarrow> P (w\<lparr>image_requests := image_requests w @ [src]\<rparr>)) \<Longrightarrow>
   keeps P (start_load src)"
  by (simp add: keeps_def start_load_def)

lemma keeps_external:
  "(\<And>w. P w \<Longrightarrow> P (w\<lparr>clock := clock w + 1\<rparr>)) \<Longrightarrow> keeps P m \<Longrightarrow> keeps P (external m)"
  by (auto simp: keeps_def external_def split: option.splits)

lemma keeps_gl_do:
  "(\<And>w. P w \<Longrightarrow> P (w\<lparr>clock := clock w + 1\<rparr>)) \<Longrightarrow>
   (\<And>w. P w \<Longrightarrow> P (on_context g (gl_exec g call) w)) \<Longrightarrow> keeps P (gl_do g call)"
  unfolding gl_do_def by (rule keeps_external) (auto simp: keeps_def)

lemma keeps_gl_create:
  "(\<And>w. P w \<Longrightarrow> P (w\<lparr>clock := clock w + 1\<rparr>)) \<Longrightarrow>
   (\<And>w. P w \<Longrightarrow> P (on_context g (\<lambda>c. (gl_exec g call c)\<lparr>next_name := next_name c + 1\<rparr>) w)) \<Longrightarrow>
   keeps P (gl_create g call)"
  unfolding gl_create_def by (rule keeps_external) (auto simp: keeps_def)

lemma keeps_assets_getShader:
  "(\<And>w. P w \<Longrightarrow> P (w\<lparr>clock := clock w + 1\<rparr>)) \<Longrightarrow>
   (\<And>w. P w \<Longrightarrow> P (on_context g (\<lambda>c. c\<lparr>next_name := next_name c + 1\<rparr>) w)) \<Longrightarrow>
   keeps P (assets_getShader g path kind)"
  unfolding assets_getShader_def by (rule keeps_external) (auto simp: keeps_def)

lemma keeps_gl_getAttribLocation:
  "(\<And>w. P w \<Longrightarrow> P (w\<lparr>clock := clock w + 1\<rparr>)) \<Longrightarrow>
   (\<And>w. P w \<Longrightarrow> P (on_context g (gl_exec g (GetAttribLocation p nm)) w)) \<Longrightarrow>
   keeps P (gl_getAttribLocation g p nm)"
  unfolding gl_getAttribLocation_def by (rule keeps_external) (auto simp: keeps_def)

lemma keeps_gl_getUniformLocation:
  "(\<And>w. P w \<Longrightarrow> P (w\<lparr>clock := clock w + 1\<rparr>)) \<Longrightarrow>
   (\<And>w. P w \<Longrightarrow> P (on_context g (gl_exec g (GetUniformLocation p nm)) w)) \<Longrightarrow>
   keeps P (gl_getUniformLocation g p nm)"
  unfolding gl_getUniformLocation_def by (rule keeps_external) (auto simp: keeps_def)

lemmas keeps_intros = keeps_bind keeps_block_Nil keeps_block_Cons keeps_return keeps_read
  keeps_deref keeps_assign keeps_start_load keeps_external keeps_gl_do keeps_gl_create
  keeps_assets_getShader keeps_gl_getAttribLocation keeps_gl_getUniformLocation

lemma keeps_run:
  assumes "\<And>op. keeps P (operate op)" and "P w"
  shows "P (run ops w)"
  using assms(2)
proof (induction ops arbitrary: w)
  case Nil
  then show ?case by simp
next
  case (Cons op ops)
  have "P (snd (operate op w))"
    using assms(1) [of op] Cons.prems by (simp add: keeps_def)
  then show ?case using Cons.IH by simp
qed

lemma keeps_operate:
  assumes "\<And>p v. keeps P (render p v)" and "keeps P initShader" and "keeps P initTexture"
    and "\<And>img. keeps P (image_onload img)"
  shows "keeps P (operate op)"
  by (cases op) (simp_all add: operate_def assms)

lemmas operations_defs = render_def initShader_def initTexture_def image_onload_def

lemma operate_keeps_position: "keeps (\<lambda>w. position (self w) = x) (operate op)"
  by (rule keeps_operate; unfold operations_defs; intro keeps_intros; simp add: on_context_def)

lemma operate_keeps_iBuffer: "keeps (\<lambda>w. iBuffer (self w) = x) (operate op)"
  by (rule keeps_operate; unfold operations_defs; intro keeps_intros; simp add: on_context_def)

lemma operate_keeps_flip: "keeps (\<lambda>w. unpack_flip_y (contexts w gl)) (operate op)"
  by (rule keeps_operate; unfold operations_defs; intro keeps_intros;
      simp add: on_context_def gl_exec_def new_Uint8Array_def split: option.splits)

lemma render_keeps_texture:
  "keeps (\<lambda>w. texture (self w) = x \<and> texture_store (contexts w gl) t = y) (render p v)"
  unfolding render_def
  by (intro keeps_intros; simp add: on_context_def gl_exec_def)

lemma keeps_run_renders:
  assumes "\<And>p v. keeps P (render p v)" and "P w" and "list_all is_render ops"
  shows "P (run ops w)"
  using assms(2,3)
proof (induction ops arbitrary: w)
  case Nil
  then show ?case by simp
next
  case (Cons op ops)
  obtain p v where op: "op = Render p v"
    using Cons.prems(2) by (cases op) simp_all
  have "P (snd (operate op w))"
    using assms(1) [of p v] Cons.prems(1) by (simp add: keeps_def op operate_def)
  then show ?case using Cons.IH Cons.prems(2) by simp
qed

lemma operate_keeps_buffer_store:
  "keeps (\<lambda>w. buffer_store (contexts w g) h = x) (operate op)"
  by (rule keeps_operate; unfold operations_defs; intro keeps_intros;
      auto simp: on_context_def gl_exec_def new_Uint8Array_def split: option.splits)

lemma GLSkybox_try_keeps_console: "keeps (\<lambda>w. console w = x) (GLSkybox_try g)"
  unfolding GLSkybox_try_def initShader_def initTexture_def set_vBuffer_def set_tBuffer_def
    set_iBuffer_def
  by (intro keeps_intros; simp add: on_context_def)

text \<open>Properties that hold where a statement throws.\<close>

lemma throw_of_keeps: "keeps P m \<Longrightarrow> keeps_on_throw P m"
  by (auto simp: keeps_def keeps_on_throw_def)

lemma throw_assign: "keeps_on_throw P (assign f)"
  by (simp add: keeps_on_throw_def assign_def)

lemma throw_bind:
  assumes "keeps P m" and "\<And>x. keeps_on_throw P (f x)"
  shows "keeps_on_throw P (js_bind m f)"
  unfolding keeps_on_throw_def
proof (intro allI impI, elim conjE)
  fix w e w'
  assume P: "P w" and thrown: "js_bind m f w = (Inl e, w')"
  obtain r w1 where mw: "m w = (r, w1)" by (cases "m w")
  have P1: "P w1" using assms(1) P mw by (auto simp: keeps_def)
  show "P w'"
  proof (cases r)
    case (Inl e1)
    then show ?thesis using thrown mw P1 by (simp add: js_bind_def)
  next
    case (Inr y)
    then have "f y w1 = (Inl e, w')" using thrown mw by (simp add: js_bind_def)
    then show ?thesis using assms(2) [of y] P1 by (auto simp: keeps_on_throw_def)
  qed
qed

lemma throw_block_last: "keeps_on_throw P s \<Longrightarrow> keeps_on_throw P (js_block [s])"
  by (auto simp: keeps_on_throw_def js_block.simps js_bind_def js_return_def
      split: prod.splits sum.splits)

lemma throw_block_step:
  "keeps P s \<Longrightarrow> keeps_on_throw P (js_block (t # ss)) \<Longrightarrow>
   keeps_on_throw P (js_block (s # t # ss))"
  by (subst js_block.simps) (rule throw_bind)

lemma GLSkybox_try_throw_position:
  "keeps_on_throw (\<lambda>w. position (self w) = None) (GLSkybox_try g)"
  unfolding GLSkybox_try_def
  apply (intro throw_block_step throw_block_last)
                     apply (unfold initShader_def initTexture_def set_vBuffer_def set_tBuffer_def
      set_iBuffer_def)
                     apply (intro keeps_intros; simp add: on_context_def)+
  apply (rule throw_bind)
   apply (intro keeps_intros; simp)
  apply (rule throw_assign)
  done

lemma operate_keeps_faults: "keeps (\<lambda>w. faults w = x) (operate op)"
  by (rule keeps_operate; unfold operations_defs; intro keeps_intros; simp add: on_context_def)

lemma operate_keeps_ready: "keeps ready (operate op)"
  by (rule keeps_operate; unfold operations_defs; intro keeps_intros;
      simp add: on_context_def ready_def)

lemma run_ready:
  assumes "construction_succeeds g w" and "no_faults w"
  shows "ready (run ops (GLSkybox g w)) \<and> no_faults (run ops (GLSkybox g w))"
proof
  show "ready (run ops (GLSkybox g w))"
    by (rule keeps_run [where P = ready, OF operate_keeps_ready GLSkybox_ready [OF assms(1)]])
  have "faults (run ops (GLSkybox g w)) = faults w"
    by (rule keeps_run [where P = "\<lambda>w'. faults w' = faults w", OF operate_keeps_faults
          GLSkybox_faults [OF assms(1)]])
  then show "no_faults (run ops (GLSkybox g w))"
    using assms(2) by (simp add: no_faults_def)
qed

lemma image_onload_normal:
  "image_onload img w = (Inr (), w') \<Longrightarrow>
     texture_binding_2d (contexts w' gl) (active_texture (contexts w' gl)) = None
   \<and> unpack_flip_y (contexts w' gl)"
  unfolding image_onload_def
  apply (erule js_block_ConsE, clarsimp simp: exec_simps)+
  apply (clarsimp simp: exec_simps split: option.splits if_splits)
  done

subsection \<open>The claims\<close>

text \<open>
  C1. Whatever the state of depth testing when \<open>render\<close> is called, depth testing is
  enabled on the global context when \<open>render\<close> returns: the first call it makes on the
  context disables depth testing and the last one enables it. And \<open>render\<close> does return
  when the instance has all its properties and no call throws.
\<close>

theorem render_leaves_depth_test_enabled:
  "(ready w \<and> no_faults w \<longrightarrow> fst (render p v w) = Inr ())
   \<and> (\<forall>w'. render p v w = (Inr (), w') \<longrightarrow>
         depth_test (contexts w' gl)
       \<and> hd (gl_calls_since w w') = Disable DEPTH_TEST
       \<and> last (gl_calls_since w w') = Enable DEPTH_TEST
       \<and> draws (butlast (tl (gl_calls_since w w'))) = draws (gl_calls_since w w'))"
proof (intro conjI allI impI)
  assume "ready w \<and> no_faults w"
  then show "fst (render p v w) = Inr ()" by (simp add: render_returns)
next
  fix w'
  assume r: "render p v w = (Inr (), w')"
  from render_normal [OF r] show "depth_test (contexts w' gl)"
    by (auto simp: gl_run_def render_calls_def gl_exec_def)
  from render_normal [OF r] show "hd (gl_calls_since w w') = Disable DEPTH_TEST"
    unfolding render_calls_since [OF r] by (auto simp: render_calls_def)
  from render_normal [OF r] show "last (gl_calls_since w w') = Enable DEPTH_TEST"
    unfolding render_calls_since [OF r] by (auto simp: render_calls_def)
  from render_normal [OF r]
  show "draws (butlast (tl (gl_calls_since w w'))) = draws (gl_calls_since w w')"
    unfolding render_calls_since [OF r] by (auto simp: render_calls_def draws_def)
qed

theorem render_leaves_depth_test_enabled_witness:
  "ready world1 \<and> no_faults world1 \<and> \<not> depth_test (contexts world1 gl)
   \<and> fst (render identity_matrix identity_matrix world1) = Inr ()
   \<and> depth_test (contexts (snd (render identity_matrix identity_matrix world1)) gl)"
proof -
  have h: "ready world1 \<and> no_faults world1"
    by (simp add: ready_def no_faults_def world1_def world0_def skybox1_def)
  have off: "\<not> depth_test (contexts world1 gl)"
    by (simp add: world1_def world0_def ctx0_def)
  note c1 = render_leaves_depth_test_enabled [of world1 identity_matrix identity_matrix]
  have r: "fst (render identity_matrix identity_matrix world1) = Inr ()"
    using c1 h by blast
  then have "render identity_matrix identity_matrix world1 =
      (Inr (), snd (render identity_matrix identity_matrix world1))"
    by (simp add: prod_eq_iff)
  then have "depth_test (contexts (snd (render identity_matrix identity_matrix world1)) gl)"
    using c1 by blast
  then show ?thesis using h off r by simp
qed



text \<open>
  C3. The vertex array has 72 numbers, three for each of 24 positions (and the texture
  coordinates two for each); the index array has 36 entries, each at most 23, and they
  are, face by face, the two triangles 0-1-2 and 0-2-3 of the four vertices of the face.
  A constructor that runs to the end of its \<^verbatim>\<open>try\<close> leaves the two arrays in the
  vertex and index buffers, on the context it was given, with \<^verbatim>\<open>numItems\<close> 24 and 36.
\<close>

theorem mesh_data:
  "length vertices = 3 * 24 \<and> length coords = 2 * 24 \<and> length indices = 36
   \<and> list_all (\<lambda>i. i \<le> 23) indices
   \<and> indices = concat (map (\<lambda>f. [4 * f, 4 * f + 1, 4 * f + 2, 4 * f, 4 * f + 2, 4 * f + 3])
        [0..<6])
   \<and> (construction_succeeds gl_arg w \<longrightarrow>
        (\<exists>vb ib. vBuffer (self (GLSkybox gl_arg w)) = Some vb
           \<and> itemSize vb = Some 3 \<and> numItems vb = Some 24
           \<and> buffer_store (contexts (GLSkybox gl_arg w) gl_arg) (buffer vb)
               = Some (Float32Array vertices)
           \<and> iBuffer (self (GLSkybox gl_arg w)) = Some ib
           \<and> itemSize ib = Some 1 \<and> numItems ib = Some 36
           \<and> buffer_store (contexts (GLSkybox gl_arg w) gl_arg) (buffer ib)
               = Some (Uint16Array indices)))"
proof (intro conjI impI)
  show "length vertices = 3 * 24" by (simp add: vertices_def)
  show "length coords = 2 * 24" by (simp add: coords_def)
  show "length indices = 36" by (simp add: indices_def)
  show "list_all (\<lambda>i. i \<le> 23) indices" by (simp add: indices_def)
  show "indices = concat (map (\<lambda>f. [4 * f, 4 * f + 1, 4 * f + 2, 4 * f, 4 * f + 2, 4 * f + 3])
      [0..<6])"
    by (simp add: indices_def upt_rec)
next
  assume ok: "construction_succeeds gl_arg w"
  from GLSkybox_try_normal [OF GLSkybox_success [OF ok]]
  show "\<exists>vb ib. vBuffer (self (GLSkybox gl_arg w)) = Some vb
           \<and> itemSize vb = Some 3 \<and> numItems vb = Some 24
           \<and> buffer_store (contexts (GLSkybox gl_arg w) gl_arg) (buffer vb)
               = Some (Float32Array vertices)
           \<and> iBuffer (self (GLSkybox gl_arg w)) = Some ib
           \<and> itemSize ib = Some 1 \<and> numItems ib = Some 36
           \<and> buffer_store (contexts (GLSkybox gl_arg w) gl_arg) (buffer ib)
               = Some (Uint16Array indices)"
    by (elim exE conjE) simp
qed

theorem mesh_data_witness:
  "construction_succeeds gl world0
   \<and> (\<exists>ib. iBuffer (self (GLSkybox gl world0)) = Some ib \<and> numItems ib = Some 36
        \<and> buffer_store (contexts (GLSkybox gl world0) gl) (buffer ib)
            = Some (Uint16Array indices))"
  using mesh_data [of gl world0] construction_succeeds_world0 by blast

text \<open>
  C4. Every face has four texture coordinates and each of them lies in the quadrant of
  the cell that the layout comment assigns to the face. The front face is in row 1, column
  1, and its coordinates lie in [0.25, 0.50] \<times> [0.50, 0.75].
\<close>

theorem face_coords_in_assigned_quadrant:
  "length (face_coords f) = 4
   \<and> list_all (in_assigned_quadrant f) (face_coords f)
   \<and> atlas_cell Front = Some (1, 1)
   \<and> list_all (\<lambda>(u, v). 0.25 \<le> u \<and> u \<le> 0.50 \<and> 0.50 \<le> v \<and> v \<le> 0.75) (face_coords Front)"
  by (cases f)
     (simp_all add: face_coords_def coords_def in_assigned_quadrant_def in_quadrant_def
        atlas_cell_def atlas_layout_def)

text \<open>
  C5. When the body of the constructor's \<^verbatim>\<open>try\<close> throws, the constructor returns
  all the same: its result is the state the body had reached, with one line, made of
  "GLSkybox: " and the exception, added to the console. Nothing else tells the caller.
  The instance is not complete: its position is still \<^verbatim>\<open>undefined\<close>.
\<close>

theorem constructor_swallows_exceptions:
  assumes "GLSkybox_try gl_arg (w\<lparr>self := undefined_skybox\<rparr>) = (Inl err, w1)"
  shows "GLSkybox gl_arg w = console_log (''GLSkybox: '' @ exn_string err) w1
     \<and> console (GLSkybox gl_arg w) = console w @ [''GLSkybox: '' @ exn_string err]
     \<and> position (self (GLSkybox gl_arg w)) = None"
proof -
  have res: "GLSkybox gl_arg w = console_log (''GLSkybox: '' @ exn_string err) w1"
    using assms by (simp add: GLSkybox_def)
  have "console (snd (GLSkybox_try gl_arg (w\<lparr>self := undefined_skybox\<rparr>))) = console w"
    using GLSkybox_try_keeps_console [of "console w" gl_arg]
    by (simp add: keeps_def)
  then have con: "console w1 = console w" using assms by simp
  have "position (self (w\<lparr>self := undefined_skybox\<rparr>)) = None"
    by (simp add: undefined_skybox_def)
  with GLSkybox_try_throw_position [of gl_arg] assms have pos: "position (self w1) = None"
    unfolding keeps_on_throw_def by blast
  show ?thesis using res con pos by (simp add: console_log_def)
qed

theorem constructor_swallows_exceptions_witness:
  "fst (GLSkybox_try gl (world_failing\<lparr>self := undefined_skybox\<rparr>)) = Inl (Thrown ''compile error'')
   \<and> console (GLSkybox gl world_failing) = [''GLSkybox: compile error'']
   \<and> position (self (GLSkybox gl world_failing)) = None"
proof -
  have t: "fst (GLSkybox_try gl (world_failing\<lparr>self := undefined_skybox\<rparr>))
      = Inl (Thrown ''compile error'')"
    unfolding GLSkybox_try_def initShader_def
    by (simp add: js_block.simps js_bind_def external_def gl_create_def assets_getShader_def
        on_context_def world_failing_def world0_def)
  then have "GLSkybox_try gl (world_failing\<lparr>self := undefined_skybox\<rparr>) =
      (Inl (Thrown ''compile error''), snd (GLSkybox_try gl (world_failing\<lparr>self := undefined_skybox\<rparr>)))"
    by (simp add: prod_eq_iff)
  note c5 = constructor_swallows_exceptions [OF this]
  from c5 have "console (GLSkybox gl world_failing) =
      console world_failing @ [''GLSkybox: '' @ exn_string (Thrown ''compile error'')]"
    by blast
  then have "console (GLSkybox gl world_failing) = [''GLSkybox: compile error'']"
    by (simp add: exn_string_def world_failing_def world0_def)
  moreover from c5 have "position (self (GLSkybox gl world_failing)) = None"
    by blast
  ultimately show ?thesis using t by blast
qed

text \<open>
  C6. After a constructor that ran to the end of its \<^verbatim>\<open>try\<close>, the texture of the
  skybox is an object of the global context and holds one pixel, 1 by 1, with the bytes
  0, 0, 200, 255: blue, with full alpha. As long as only \<open>render\<close> runs, that is before
  the \<^verbatim>\<open>onload\<close> callback, the texture keeps this pixel; every \<open>render\<close> then
  returns when no call throws, and a \<open>render\<close> that returns leaves this texture, still
  holding the pixel, bound to the active texture unit, which is unit 0.
\<close>

theorem placeholder_texture_until_load:
  assumes "construction_succeeds gl_arg w"
  shows "\<exists>t. texture (self (GLSkybox gl_arg w)) = Some (gl, t)
     \<and> texture_store (contexts (GLSkybox gl_arg w) gl) (gl, t) = Some (Pixels 1 1 [0, 0, 200, 255])
     \<and> (\<forall>ops. list_all is_render ops \<longrightarrow>
          texture (self (run ops (GLSkybox gl_arg w))) = Some (gl, t)
        \<and> texture_store (contexts (run ops (GLSkybox gl_arg w)) gl) (gl, t)
            = Some (Pixels 1 1 [0, 0, 200, 255])
        \<and> (no_faults w \<longrightarrow>
             (\<forall>p v. fst (render p v (run ops (GLSkybox gl_arg w))) = Inr ()))
        \<and> (\<forall>p v w'. render p v (run ops (GLSkybox gl_arg w)) = (Inr (), w') \<longrightarrow>
              active_texture (contexts w' gl) = 0
            \<and> texture_binding_2d (contexts w' gl) 0 = Some (gl, t)
            \<and> texture_store (contexts w' gl) (gl, t) = Some (Pixels 1 1 [0, 0, 200, 255])))"
proof -
  from GLSkybox_try_normal [OF GLSkybox_success [OF assms]]
  obtain t where t: "texture (self (GLSkybox gl_arg w)) = Some (gl, t)"
    and px: "texture_store (contexts (GLSkybox gl_arg w) gl) (gl, t)
        = Some (Pixels 1 1 [0, 0, 200, 255])"
    by (elim exE conjE) simp
  let ?P = "\<lambda>w. texture (self w) = Some (gl, t)
      \<and> texture_store (contexts w gl) (gl, t) = Some (Pixels 1 1 [0, 0, 200, 255])"
  have later: "?P (run ops (GLSkybox gl_arg w))" if "list_all is_render ops" for ops
    by (rule keeps_run_renders [where P = ?P, OF render_keeps_texture _ that]) (simp add: t px)
  have returns: "fst (render p v (run ops (GLSkybox gl_arg w))) = Inr ()"
    if "no_faults w" for ops p v
    using run_ready [OF assms that, of ops] by (simp add: render_returns)
  have bound: "active_texture (contexts w' gl) = 0
      \<and> texture_binding_2d (contexts w' gl) 0 = Some (gl, t)
      \<and> texture_store (contexts w' gl) (gl, t) = Some (Pixels 1 1 [0, 0, 200, 255])"
    if "?P w1" and r: "render p v w1 = (Inr (), w')" for w1 p v w'
    using render_normal [OF r] that(1)
    by (auto simp: gl_run_def render_calls_def gl_exec_def owned_def)
  have "texture (self (run ops (GLSkybox gl_arg w))) = Some (gl, t)
        \<and> texture_store (contexts (run ops (GLSkybox gl_arg w)) gl) (gl, t)
            = Some (Pixels 1 1 [0, 0, 200, 255])
        \<and> (no_faults w \<longrightarrow>
             (\<forall>p v. fst (render p v (run ops (GLSkybox gl_arg w))) = Inr ()))
        \<and> (\<forall>p v w'. render p v (run ops (GLSkybox gl_arg w)) = (Inr (), w') \<longrightarrow>
              active_texture (contexts w' gl) = 0
            \<and> texture_binding_2d (contexts w' gl) 0 = Some (gl, t)
            \<and> texture_store (contexts w' gl) (gl, t) = Some (Pixels 1 1 [0, 0, 200, 255]))"
    if rs: "list_all is_render ops" for ops
    using later [OF rs] returns bound [OF later [OF rs]] by blast
  then show ?thesis
    using t px by blast
qed

theorem placeholder_texture_until_load_witness:
  "construction_succeeds gl world0 \<and> no_faults world0
   \<and> list_all is_render [Render identity_matrix identity_matrix]
   \<and> fst (render identity_matrix identity_matrix
        (run [Render identity_matrix identity_matrix] (GLSkybox gl world0))) = Inr ()
   \<and> (\<exists>t. texture (self (GLSkybox gl world0)) = Some (gl, t)
        \<and> texture_binding_2d (contexts (snd (render identity_matrix identity_matrix
             (run [Render identity_matrix identity_matrix] (GLSkybox gl world0)))) gl) 0
            = Some (gl, t)
        \<and> texture_store (contexts (snd (render identity_matrix identity_matrix
             (run [Render identity_matrix identity_matrix] (GLSkybox gl world0)))) gl) (gl, t)
            = Some (Pixels 1 1 [0, 0, 200, 255]))"
proof -
  let ?ops = "[Render identity_matrix identity_matrix]"
  let ?w = "run ?ops (GLSkybox gl world0)"
  have nf: "no_faults world0" by (simp add: no_faults_def world0_def)
  have rs: "list_all is_render ?ops" by simp
  from placeholder_texture_until_load [OF construction_succeeds_world0]
  obtain t where t: "texture (self (GLSkybox gl world0)) = Some (gl, t)"
    and all: "\<forall>ops. list_all is_render ops \<longrightarrow>
          texture (self (run ops (GLSkybox gl world0))) = Some (gl, t)
        \<and> texture_store (contexts (run ops (GLSkybox gl world0)) gl) (gl, t)
            = Some (Pixels 1 1 [0, 0, 200, 255])
        \<and> (no_faults world0 \<longrightarrow>
             (\<forall>p v. fst (render p v (run ops (GLSkybox gl world0))) = Inr ()))
        \<and> (\<forall>p v w'. render p v (run ops (GLSkybox gl world0)) = (Inr (), w') \<longrightarrow>
              active_texture (contexts w' gl) = 0
            \<and> texture_binding_2d (contexts w' gl) 0 = Some (gl, t)
            \<and> texture_store (contexts w' gl) (gl, t) = Some (Pixels 1 1 [0, 0, 200, 255]))"
    by blast
  from all rs nf have r: "fst (render identity_matrix identity_matrix ?w) = Inr ()"
    by blast
  then have r': "render identity_matrix identity_matrix ?w =
      (Inr (), snd (render identity_matrix identity_matrix ?w))"
    by (simp add: prod_eq_iff)
  from all rs r' have
    "texture_binding_2d (contexts (snd (render identity_matrix identity_matrix ?w)) gl) 0
        = Some (gl, t)
     \<and> texture_store (contexts (snd (render identity_matrix identity_matrix ?w)) gl) (gl, t)
        = Some (Pixels 1 1 [0, 0, 200, 255])"
    by blast
  then show ?thesis
    using construction_succeeds_world0 nf rs r t by blast
qed

text \<open>
  C7. After a constructor that ran to the end of its \<^verbatim>\<open>try\<close>, the model matrix and
  the model-view matrix are the identity and the position is the zero vector.
\<close>

theorem construction_initial_transform:
  assumes "construction_succeeds gl_arg w"
  shows "mMatrix (self (GLSkybox gl_arg w)) = Some identity_matrix
     \<and> mvMatrix (self (GLSkybox gl_arg w)) = Some identity_matrix
     \<and> position (self (GLSkybox gl_arg w)) = Some (0, 0, 0)"
  using GLSkybox_try_normal [OF GLSkybox_success [OF assms]]
  by (elim exE conjE) (simp add: mat4_create_def vec3_create_def)

theorem construction_initial_transform_witness:
  "construction_succeeds gl world0
   \<and> mMatrix (self (GLSkybox gl world0)) = Some ((1, 0, 0, 0), (0, 1, 0, 0), (0, 0, 1, 0), (0, 0, 0, 1))
   \<and> position (self (GLSkybox gl world0)) = Some (0, 0, 0)"
  using construction_initial_transform [OF construction_succeeds_world0]
    construction_succeeds_world0
  by (simp add: identity_matrix_def)

text \<open>
  C8. A \<open>render\<close> that returns has set the model matrix to the identity translated by
  the stored position and has made exactly one draw call, for indexed triangles, with the
  \<^verbatim>\<open>numItems\<close> of the index buffer as count; the call comes right after the upload of
  the model-view matrix computed from that model matrix and right before the call that
  enables depth testing again. On an instance whose constructor ran to the end of its
  \<^verbatim>\<open>try\<close>, whatever operations ran since, the count is 36 and the index buffer holds
  the 36 indices.
\<close>

theorem render_draws_once:
  assumes "render p v w = (Inr (), w')"
  shows "\<exists>m pos sh ib.
       mMatrix (self w) = Some m \<and> position (self w) = Some pos
     \<and> shader (self w) = Some sh \<and> iBuffer (self w) = Some ib
     \<and> mMatrix (self w') = Some (mat4_translate (mat4_identity m) pos)
     \<and> draws (gl_calls_since w w')
         = [DrawElements TRIANGLES (js_to_int (numItems ib)) UNSIGNED_SHORT 0]
     \<and> (\<exists>before. gl_calls_since w w' = before @
           [UniformMatrix4fv (mvMatrixUniform sh) False
              (mat4_multiply v (mat4_translate (mat4_identity m) pos)),
            DrawElements TRIANGLES (js_to_int (numItems ib)) UNSIGNED_SHORT 0,
            Enable DEPTH_TEST])
     \<and> (\<forall>gl_arg w0 ops.
           construction_succeeds gl_arg w0 \<and> w = run ops (GLSkybox gl_arg w0) \<longrightarrow>
             js_to_int (numItems ib) = 36
           \<and> buffer_store (contexts w gl_arg) (buffer ib) = Some (Uint16Array indices)
           \<and> length indices = 36)"
proof -
  from render_normal [OF assms]
  obtain sh vb tb ib m mv pos where
    f: "shader (self w) = Some sh" "vBuffer (self w) = Some vb" "tBuffer (self w) = Some tb"
       "iBuffer (self w) = Some ib" "mMatrix (self w) = Some m" "mvMatrix (self w) = Some mv"
       "position (self w) = Some pos"
    and m': "mMatrix (self w') = Some (mat4_translate identity_matrix pos)"
    by (elim exE conjE) simp
  have cs: "gl_calls_since w w' = render_calls (self w) p v"
    by (rule render_calls_since [OF assms])
  have d: "draws (gl_calls_since w w')
      = [DrawElements TRIANGLES (js_to_int (numItems ib)) UNSIGNED_SHORT 0]"
    unfolding cs by (simp add: render_calls_def draws_def f)
  have "gl_calls_since w w' = take 11 (render_calls (self w) p v) @
      [UniformMatrix4fv (mvMatrixUniform sh) False
         (mat4_multiply v (mat4_translate (mat4_identity m) pos)),
       DrawElements TRIANGLES (js_to_int (numItems ib)) UNSIGNED_SHORT 0,
       Enable DEPTH_TEST]"
    unfolding cs by (simp add: render_calls_def f mat4_identity_def)
  then have order: "\<exists>before. gl_calls_since w w' = before @
      [UniformMatrix4fv (mvMatrixUniform sh) False
         (mat4_multiply v (mat4_translate (mat4_identity m) pos)),
       DrawElements TRIANGLES (js_to_int (numItems ib)) UNSIGNED_SHORT 0,
       Enable DEPTH_TEST]"
    by blast
  have built: "\<forall>gl_arg w0 ops.
      construction_succeeds gl_arg w0 \<and> w = run ops (GLSkybox gl_arg w0) \<longrightarrow>
        js_to_int (numItems ib) = 36
      \<and> buffer_store (contexts w gl_arg) (buffer ib) = Some (Uint16Array indices)
      \<and> length indices = 36"
  proof (intro allI impI, elim conjE)
    fix gl_arg w0 ops
    assume ok: "construction_succeeds gl_arg w0" and w: "w = run ops (GLSkybox gl_arg w0)"
    from GLSkybox_try_normal [OF GLSkybox_success [OF ok]]
    obtain n where
      ib0: "iBuffer (self (GLSkybox gl_arg w0))
          = Some \<lparr>buffer = (gl_arg, n), itemSize = Some 1, numItems = Some 36\<rparr>"
      and st0: "buffer_store (contexts (GLSkybox gl_arg w0) gl_arg) (gl_arg, n)
          = Some (Uint16Array indices)"
      by (elim exE conjE) simp
    have "iBuffer (self w) = Some \<lparr>buffer = (gl_arg, n), itemSize = Some 1, numItems = Some 36\<rparr>"
      unfolding w
      by (rule keeps_run [where P = "\<lambda>w. iBuffer (self w) = Some \<lparr>buffer = (gl_arg, n),
            itemSize = Some 1, numItems = Some 36\<rparr>", OF operate_keeps_iBuffer ib0])
    then have ib: "ib = \<lparr>buffer = (gl_arg, n), itemSize = Some 1, numItems = Some 36\<rparr>"
      using f(4) by simp
    have "buffer_store (contexts w gl_arg) (gl_arg, n) = Some (Uint16Array indices)"
      unfolding w
      by (rule keeps_run [where P = "\<lambda>w. buffer_store (contexts w gl_arg) (gl_arg, n)
            = Some (Uint16Array indices)", OF operate_keeps_buffer_store st0])
    then show "js_to_int (numItems ib) = 36
      \<and> buffer_store (contexts w gl_arg) (buffer ib) = Some (Uint16Array indices)
      \<and> length indices = 36"
      by (simp add: ib js_to_int_def indices_def)
  qed
  have m'': "mMatrix (self w') = Some (mat4_translate (mat4_identity m) pos)"
    using m' by (simp add: mat4_identity_def)
  show ?thesis
    using f(1,4,5,7) m'' d order built by blast
qed

theorem render_draws_once_witness:
  "construction_succeeds gl world0
   \<and> fst (render identity_matrix identity_matrix (run [ImageOnload] (GLSkybox gl world0))) = Inr ()
   \<and> draws (gl_calls_since (run [ImageOnload] (GLSkybox gl world0))
        (snd (render identity_matrix identity_matrix (run [ImageOnload] (GLSkybox gl world0)))))
       = [DrawElements TRIANGLES 36 UNSIGNED_SHORT 0]"
proof -
  let ?w = "run [ImageOnload] (GLSkybox gl world0)"
  have nf: "no_faults world0" by (simp add: no_faults_def world0_def)
  have "ready ?w \<and> no_faults ?w"
    by (rule run_ready [OF construction_succeeds_world0 nf])
  then have r: "fst (render identity_matrix identity_matrix ?w) = Inr ()"
    by (simp add: render_returns)
  then have "render identity_matrix identity_matrix ?w =
      (Inr (), snd (render identity_matrix identity_matrix ?w))"
    by (simp add: prod_eq_iff)
  from render_draws_once [OF this] construction_succeeds_world0 r
  show ?thesis by (elim exE conjE) (metis (no_types, lifting))
qed

text \<open>
  C9. No operation of an instance changes its position, whether the operation returns or
  throws: not \<open>render\<close>, not \<open>initShader\<close>, not \<open>initTexture\<close>, not the \<^verbatim>\<open>onload\<close>
  callback, and so no run of them does. After a constructor that ran to the end of its
  \<^verbatim>\<open>try\<close> the position therefore stays the zero vector, and every \<open>render\<close> that
  returns leaves the identity as model matrix.
\<close>

theorem position_never_mutated:
  "position (self (snd (operate op w))) = position (self w)
   \<and> position (self (run ops w)) = position (self w)
   \<and> (construction_succeeds gl_arg start \<longrightarrow>
        position (self (run ops (GLSkybox gl_arg start))) = Some (0, 0, 0)
      \<and> (\<forall>p v w'. render p v (run ops (GLSkybox gl_arg start)) = (Inr (), w') \<longrightarrow>
            mMatrix (self w') = Some identity_matrix
          \<and> position (self w') = Some (0, 0, 0)))"
proof (intro conjI impI allI)
  show "position (self (snd (operate op w))) = position (self w)"
    using operate_keeps_position [of "position (self w)" op] by (simp add: keeps_def)
  show "position (self (run ops w)) = position (self w)"
    by (rule keeps_run [where P = "\<lambda>w'. position (self w') = position (self w)",
          OF operate_keeps_position refl])
next
  assume ok: "construction_succeeds gl_arg start"
  from GLSkybox_try_normal [OF GLSkybox_success [OF ok]]
  have p0: "position (self (GLSkybox gl_arg start)) = Some (0, 0, 0)"
    by (elim exE conjE) (simp add: vec3_create_def)
  show p: "position (self (run ops (GLSkybox gl_arg start))) = Some (0, 0, 0)"
    by (rule keeps_run [where P = "\<lambda>w'. position (self w') = Some (0, 0, 0)",
          OF operate_keeps_position p0])
  fix p' v w'
  assume r: "render p' v (run ops (GLSkybox gl_arg start)) = (Inr (), w')"
  from render_normal [OF r] p
  have "mMatrix (self w') = Some (mat4_translate identity_matrix (0, 0, 0))"
    by (elim exE conjE) simp
  then show "mMatrix (self w') = Some identity_matrix"
    unfolding mat4_translate_identity by (simp add: translation_matrix_def identity_matrix_def)
  from render_normal [OF r] p
  show "position (self w') = Some (0, 0, 0)"
    by (elim exE conjE) simp
qed

theorem position_never_mutated_witness:
  "construction_succeeds gl world0
   \<and> position (self (run [Render identity_matrix identity_matrix, ImageOnload, InitTexture,
        InitShader] (GLSkybox gl world0))) = Some (0, 0, 0)
   \<and> fst (render identity_matrix identity_matrix
        (run [ImageOnload, InitTexture] (GLSkybox gl world0))) = Inr ()
   \<and> mMatrix (self (snd (render identity_matrix identity_matrix
        (run [ImageOnload, InitTexture] (GLSkybox gl world0))))) = Some identity_matrix"
proof -
  let ?w = "run [ImageOnload, InitTexture] (GLSkybox gl world0)"
  have nf: "no_faults world0" by (simp add: no_faults_def world0_def)
  have "ready ?w \<and> no_faults ?w"
    by (rule run_ready [OF construction_succeeds_world0 nf])
  then have r: "fst (render identity_matrix identity_matrix ?w) = Inr ()"
    by (simp add: render_returns)
  then have r': "render identity_matrix identity_matrix ?w =
      (Inr (), snd (render identity_matrix identity_matrix ?w))"
    by (simp add: prod_eq_iff)
  from position_never_mutated [where ops = "[Render identity_matrix identity_matrix, ImageOnload,
      InitTexture, InitShader]" and gl_arg = gl and start = world0] construction_succeeds_world0
  have a: "position (self (run [Render identity_matrix identity_matrix, ImageOnload, InitTexture,
        InitShader] (GLSkybox gl world0))) = Some (0, 0, 0)"
    by blast
  from position_never_mutated [where ops = "[ImageOnload, InitTexture]" and gl_arg = gl
      and start = world0] construction_succeeds_world0 r'
  have b: "mMatrix (self (snd (render identity_matrix identity_matrix ?w))) = Some identity_matrix"
    by blast
  show ?thesis using construction_succeeds_world0 a r b by blast
qed

text \<open>
  C10. When the \<^verbatim>\<open>onload\<close> callback returns, no texture is bound to the 2D target of
  the active texture unit of the global context, and the flag that flips images on upload
  is set; no operation of the instance clears the flag afterwards, so it is still set
  whatever operations run later. A \<open>render\<close> that returns, on the other hand, leaves the
  texture of the skybox bound to that target. The callback returns when no call throws.
\<close>

theorem onload_unbinds_texture_and_leaves_flip_set:
  "(no_faults w \<longrightarrow> fst (image_onload img w) = Inr ())
   \<and> (\<forall>w'. image_onload img w = (Inr (), w') \<longrightarrow>
         texture_binding_2d (contexts w' gl) (active_texture (contexts w' gl)) = None
       \<and> unpack_flip_y (contexts w' gl)
       \<and> (\<forall>ops. unpack_flip_y (contexts (run ops w') gl)))
   \<and> (\<forall>w' t. render p v w = (Inr (), w') \<and> texture (self w) = Some (gl, t) \<longrightarrow>
         texture_binding_2d (contexts w' gl) (active_texture (contexts w' gl)) = Some (gl, t))"
proof (intro conjI allI impI)
  assume "no_faults w"
  then show "fst (image_onload img w) = Inr ()" by (rule image_onload_returns)
next
  fix w'
  assume l: "image_onload img w = (Inr (), w')"
  show "texture_binding_2d (contexts w' gl) (active_texture (contexts w' gl)) = None"
    using image_onload_normal [OF l] by blast
  show flip: "unpack_flip_y (contexts w' gl)"
    using image_onload_normal [OF l] by blast
  fix ops
  show "unpack_flip_y (contexts (run ops w') gl)"
    by (rule keeps_run [where P = "\<lambda>w. unpack_flip_y (contexts w gl)",
          OF operate_keeps_flip flip])
next
  fix w' t
  assume "render p v w = (Inr (), w') \<and> texture (self w) = Some (gl, t)"
  then have r: "render p v w = (Inr (), w')" and t: "texture (self w) = Some (gl, t)"
    by blast+
  from render_normal [OF r] t
  show "texture_binding_2d (contexts w' gl) (active_texture (contexts w' gl)) = Some (gl, t)"
    by (auto simp: gl_run_def render_calls_def gl_exec_def owned_def)
qed

theorem onload_unbinds_texture_and_leaves_flip_set_witness:
  "no_faults world1 \<and> \<not> unpack_flip_y (contexts world1 gl)
   \<and> fst (image_onload ''./images/skybox/skybox.png'' world1) = Inr ()
   \<and> unpack_flip_y (contexts (snd (image_onload ''./images/skybox/skybox.png'' world1)) gl)
   \<and> texture_binding_2d (contexts (snd (image_onload ''./images/skybox/skybox.png'' world1)) gl)
        (active_texture (contexts (snd (image_onload ''./images/skybox/skybox.png'' world1)) gl))
       = None
   \<and> texture_binding_2d (contexts (snd (render identity_matrix identity_matrix world1)) gl)
        (active_texture (contexts (snd (render identity_matrix identity_matrix world1)) gl))
       = Some (gl, 3)"
proof -
  let ?img = "''./images/skybox/skybox.png''"
  have nf: "no_faults world1" and rd: "ready world1"
    by (simp_all add: ready_def no_faults_def world1_def world0_def skybox1_def)
  have off: "\<not> unpack_flip_y (contexts world1 gl)"
    by (simp add: world1_def world0_def ctx0_def)
  have tex: "texture (self world1) = Some (gl, 3)"
    by (simp add: world1_def skybox1_def)
  note c10 = onload_unbinds_texture_and_leaves_flip_set
    [of world1 ?img identity_matrix identity_matrix]
  have l: "fst (image_onload ?img world1) = Inr ()"
    using c10 nf by blast
  then have l': "image_onload ?img world1 = (Inr (), snd (image_onload ?img world1))"
    by (simp add: prod_eq_iff)
  have r: "render identity_matrix identity_matrix world1 =
      (Inr (), snd (render identity_matrix identity_matrix world1))"
    using render_returns [OF rd nf] by (simp add: prod_eq_iff)
  show ?thesis
    using c10 nf off l l' r tex by blast
qed

end
